theory Spec2Isabelle
  imports Main
begin

section \<open>Go runtime values: panics, errors, formatting\<close>

text \<open>
  A Go panic is a value of its own, kept apart from the \<open>error\<close> results a function
  returns. Two run-time panics can occur in \<open>kubeadm_phases.go\<close>: an index outside an
  array or slice (the index and the length are part of the run-time message), and a
  method call through a nil interface.
\<close>

datatype panic = IndexOutOfRange int nat | NilPointerDereference

text \<open>An \<open>error\<close> built by \<open>fmt.Errorf\<close> (or returned by a collaborator) carries its message.\<close>

datatype error = Errorf string

text \<open>Decimal rendering, as the run-time system prints an index and a length.\<close>

fun show_nat :: "nat \<Rightarrow> string" where
  "show_nat n =
     (if n < 10 then [''0123456789'' ! n]
      else show_nat (n div 10) @ [''0123456789'' ! (n mod 10)])"

declare show_nat.simps [simp del]

definition show_int :: "int \<Rightarrow> string" where
  "show_int i = (if i < 0 then CHR ''-'' # show_nat (nat (- i)) else show_nat (nat i))"

text \<open>
  The text of the run-time error: a negative index is printed without the length.
\<close>

fun panic_Error :: "panic \<Rightarrow> string" where
  "panic_Error (IndexOutOfRange i n) =
     (if i < 0 then ''runtime error: index out of range ['' @ show_int i @ '']''
      else ''runtime error: index out of range ['' @ show_int i @ ''] with length '' @ show_nat n)"
| "panic_Error NilPointerDereference =
     ''runtime error: invalid memory address or nil pointer dereference''"

section \<open>Phase identities\<close>

text \<open>
  \<open>type kubeadmPhase int\<close> with three constants numbered by \<open>iota\<close>. Any integer is a
  value of the type; no arithmetic is done on it, so it is modelled as \<open>int\<close>.
\<close>

type_synonym kubeadmPhase = int

definition PhaseUploadConfigKubeadm :: kubeadmPhase where
  "PhaseUploadConfigKubeadm = 0"

definition PhaseUploadConfigKubelet :: kubeadmPhase where
  "PhaseUploadConfigKubelet = 1"

definition PhaseBootstrapToken :: kubeadmPhase where
  "PhaseBootstrapToken = 2"

definition declared_phases :: "kubeadmPhase set" where
  "declared_phases = {PhaseUploadConfigKubeadm, PhaseUploadConfigKubelet, PhaseBootstrapToken}"

text \<open>The array literal that \<open>String\<close> indexes.\<close>

definition kubeadmPhase_names :: "string list" where
  "kubeadmPhase_names =
     [''PhaseUploadConfigKubeadm'', ''PhaseUploadConfigKubelet'', ''PhaseAddonCoreDNS'',
      ''PhaseAddonKubeProxy'', ''PhaseBootstrapToken'']"

text \<open>
  \<open>func (d kubeadmPhase) String() string\<close>: the index expression panics outside the
  array.
\<close>

definition kubeadmPhase_String :: "kubeadmPhase \<Rightarrow> panic + string" where
  "kubeadmPhase_String d =
     (if 0 \<le> d \<and> d < int (length kubeadmPhase_names)
      then Inr (kubeadmPhase_names ! nat d)
      else Inl (IndexOutOfRange d (length kubeadmPhase_names)))"

text \<open>
  The verb \<open>%s\<close> of package \<open>fmt\<close> applied to a \<open>kubeadmPhase\<close>, as \<open>fmt.Errorf\<close> does
  in \<open>GetKubeadmFunction\<close> and \<open>GetStatus\<close>. The operand implements \<open>Stringer\<close>, so \<open>fmt\<close>
  calls its \<open>String\<close> method. A panic inside that call does not leave \<open>fmt\<close>: the print
  routine recovers it and writes \<open>%!s(PANIC=String method: \<close>, the text of the panic
  value and \<open>)\<close> where the name would stand. A direct call \<open>r.Phase.String()\<close> has no
  such protection.
\<close>

definition fmt_s :: "kubeadmPhase \<Rightarrow> string" where
  "fmt_s d =
     (case kubeadmPhase_String d of
        Inr s \<Rightarrow> s
      | Inl p \<Rightarrow> ''%!s(PANIC=String method: '' @ panic_Error p @ '')'')"

section \<open>The phase handle and the owning resource\<close>

type_synonym client = nat

record KubeadmPhase =
  Client :: client
  Name :: string
  Phase :: kubeadmPhase
  checksum :: string

text \<open>
  Modelled from the spec: the declarations of package \<open>api/v1alpha1\<close> are missing. The
  persisted status of a phase "holds the last successfully-applied Fingerprint", one
  record per declared identity inside the owning resource's status block, and
  \<open>SetChecksum\<close> "overwrites its stored fingerprint unconditionally".
\<close>

record KubeadmPhaseStatus =
  Checksum :: string

definition SetChecksum :: "string \<Rightarrow> KubeadmPhaseStatus \<Rightarrow> KubeadmPhaseStatus" where
  "SetChecksum c d = d\<lparr>Checksum := c\<rparr>"

record KubeadmPhasesStatus =
  UploadConfigKubeadm :: KubeadmPhaseStatus
  UploadConfigKubelet :: KubeadmPhaseStatus
  BootstrapToken :: KubeadmPhaseStatus

record TenantControlPlaneStatus =
  KubeadmPhase :: KubeadmPhasesStatus

record TenantControlPlane =
  Status :: TenantControlPlaneStatus

text \<open>
  \<open>GetStatus\<close> returns the address of a field of the owning resource, wrapped in the
  interface \<open>KubeadmConfigChecksumDependant\<close>. An address is the name of the field; reading
  and writing through it go to the resource. Every interface value built in this file has
  the dynamic type \<open>*KubeadmPhaseStatus\<close>.
\<close>

datatype status_field = UploadConfigKubeadm_field | UploadConfigKubelet_field | BootstrapToken_field

datatype KubeadmConfigChecksumDependant = KubeadmPhaseStatus_ptr status_field

fun load :: "status_field \<Rightarrow> TenantControlPlane \<Rightarrow> KubeadmPhaseStatus" where
  "load UploadConfigKubeadm_field t = UploadConfigKubeadm (KubeadmPhase (Status t))"
| "load UploadConfigKubelet_field t = UploadConfigKubelet (KubeadmPhase (Status t))"
| "load BootstrapToken_field t = BootstrapToken (KubeadmPhase (Status t))"

fun store :: "status_field \<Rightarrow> KubeadmPhaseStatus \<Rightarrow> TenantControlPlane \<Rightarrow> TenantControlPlane" where
  "store UploadConfigKubeadm_field v t =
     t\<lparr>Status := (Status t)\<lparr>KubeadmPhase := (KubeadmPhase (Status t))\<lparr>UploadConfigKubeadm := v\<rparr>\<rparr>\<rparr>"
| "store UploadConfigKubelet_field v t =
     t\<lparr>Status := (Status t)\<lparr>KubeadmPhase := (KubeadmPhase (Status t))\<lparr>UploadConfigKubelet := v\<rparr>\<rparr>\<rparr>"
| "store BootstrapToken_field v t =
     t\<lparr>Status := (Status t)\<lparr>KubeadmPhase := (KubeadmPhase (Status t))\<lparr>BootstrapToken := v\<rparr>\<rparr>\<rparr>"

text \<open>The type assertion \<open>i.(*kamajiv1alpha1.KubeadmPhaseStatus)\<close>.\<close>

fun as_KubeadmPhaseStatus :: "KubeadmConfigChecksumDependant \<Rightarrow> status_field option" where
  "as_KubeadmPhaseStatus (KubeadmPhaseStatus_ptr f) = Some f"

text \<open>\<open>GetStatus\<close> returns the Go pair (interface value, error).\<close>

definition GetStatus ::
  "KubeadmPhase \<Rightarrow> TenantControlPlane \<Rightarrow> KubeadmConfigChecksumDependant option \<times> error option" where
  "GetStatus r tenantControlPlane =
     (if Phase r = PhaseUploadConfigKubeadm
        then (Some (KubeadmPhaseStatus_ptr UploadConfigKubeadm_field), None)
      else if Phase r = PhaseUploadConfigKubelet
        then (Some (KubeadmPhaseStatus_ptr UploadConfigKubelet_field), None)
      else if Phase r = PhaseBootstrapToken
        then (Some (KubeadmPhaseStatus_ptr BootstrapToken_field), None)
      else (None, Some (Errorf (fmt_s (Phase r) @ '' is not a right kubeadm phase''))))"

definition isStatusEqual :: "KubeadmPhase \<Rightarrow> TenantControlPlane \<Rightarrow> bool" where
  "isStatusEqual r tenantControlPlane =
     (let (i, err) = GetStatus r tenantControlPlane in
      if err \<noteq> None then True
      else (case Option.bind i as_KubeadmPhaseStatus of
              None \<Rightarrow> False
            | Some status \<Rightarrow> Checksum (load status tenantControlPlane) = checksum r))"

definition SetKubeadmConfigChecksum :: "string \<Rightarrow> KubeadmPhase \<Rightarrow> KubeadmPhase" where
  "SetKubeadmConfigChecksum c r = r\<lparr>checksum := c\<rparr>"

text \<open>The context argument is ignored by the source (\<open>_ context.Context\<close>).\<close>

definition ShouldStatusBeUpdated :: "KubeadmPhase \<Rightarrow> TenantControlPlane \<Rightarrow> bool" where
  "ShouldStatusBeUpdated r tenantControlPlane = (\<not> isStatusEqual r tenantControlPlane)"

definition ShouldCleanup :: "KubeadmPhase \<Rightarrow> TenantControlPlane \<Rightarrow> bool" where
  "ShouldCleanup r tenantControlPlane = False"

definition CleanUp :: "KubeadmPhase \<Rightarrow> TenantControlPlane \<Rightarrow> bool \<times> error option" where
  "CleanUp r tenantControlPlane = (False, None)"

definition Define :: "KubeadmPhase \<Rightarrow> TenantControlPlane \<Rightarrow> error option" where
  "Define r tenantControlPlane = None"

definition GetClient :: "KubeadmPhase \<Rightarrow> client" where
  "GetClient r = Client r"

definition GetTmpDirectory :: "KubeadmPhase \<Rightarrow> string" where
  "GetTmpDirectory r = []"

definition GetName :: "KubeadmPhase \<Rightarrow> string" where
  "GetName r = Name r"

text \<open>
  \<open>UpdateTenantControlPlaneStatus\<close>. The logger is built first, and building it calls
  \<open>r.Phase.String()\<close> directly, outside \<open>fmt\<close>: a panic there ends the call before
  anything is read or written, so after a panic the owning resource is as it was. What
  the logger prints is returned as a list of entries (error, message, key and value
  pairs). A result that is not a panic holds the owning resource after the call, the
  returned error and the log. \<open>SetChecksum\<close> is called through the interface; the only
  dynamic type is \<open>*KubeadmPhaseStatus\<close>, and a nil interface would panic.
\<close>

datatype log_entry = LogError error string "(string \<times> string) list"

definition UpdateTenantControlPlaneStatus ::
  "KubeadmPhase \<Rightarrow> TenantControlPlane \<Rightarrow> panic + (TenantControlPlane \<times> error option \<times> log_entry list)" where
  "UpdateTenantControlPlaneStatus r tenantControlPlane =
     (case kubeadmPhase_String (Phase r) of
        Inl p \<Rightarrow> Inl p
      | Inr phaseName \<Rightarrow>
          (let (status, err) = GetStatus r tenantControlPlane in
           case err of
             Some e \<Rightarrow>
               Inr (tenantControlPlane, Some e,
                    [LogError e ''unable to update the status''
                       [(''resource'', GetName r), (''phase'', phaseName)]])
           | None \<Rightarrow>
               (case status of
                  None \<Rightarrow> Inl NilPointerDereference
                | Some (KubeadmPhaseStatus_ptr f) \<Rightarrow>
                    Inr (store f (SetChecksum (checksum r) (load f tenantControlPlane))
                           tenantControlPlane, None, []))))"

section \<open>Bootstrap tokens\<close>

text \<open>
  The token types of \<open>k8s.io/kubernetes/cmd/kubeadm/app/apis/bootstraptoken/v1\<close>: the
  credential record has an identifier field and a secret field, and a token holds a
  pointer to one (nil when absent) beside its descriptive fields. The pointee is kept by
  value; the statements below are about slot zero of a list only, so pointees shared
  between slots play no part.
\<close>

record BootstrapTokenString =
  ID :: string
  Secret :: string

record BootstrapToken =
  Token :: "BootstrapTokenString option"
  Description :: string
  TTL :: "nat option"
  Expires :: "nat option"
  Usages :: "string list"
  Groups :: "string list"

text \<open>The zero value of \<open>var bootstrapToken bootstraptokenv1.BootstrapToken\<close>.\<close>

definition zero_BootstrapToken :: BootstrapToken where
  "zero_BootstrapToken =
     \<lparr>Token = None, Description = [], TTL = None, Expires = None, Usages = [], Groups = []\<rparr>"

text \<open>
  \<open>utils.RandomString\<close> is not part of the source file. It is a parameter: a function
  from the requested length and the state of the random source to the string and the
  next state. Go evaluates the two calls from left to right.

  \<open>enrichBootstrapToken\<close> works through a pointer to the token; the model returns the
  token after the call. First a nil \<open>Token\<close> is replaced by a new empty record, then an
  empty \<open>ID\<close> is replaced by the generated string. No other field is assigned.
\<close>

type_synonym 'w RandomString = "nat \<Rightarrow> 'w \<Rightarrow> string \<times> 'w"

definition enrichBootstrapToken ::
  "'w RandomString \<Rightarrow> BootstrapToken \<Rightarrow> 'w \<Rightarrow> BootstrapToken \<times> 'w" where
  "enrichBootstrapToken RandomString bootstrapToken w =
     (let token = (case Token bootstrapToken of
                     None \<Rightarrow> \<lparr>ID = [], Secret = []\<rparr>
                   | Some t \<Rightarrow> t) in
      if ID token = [] then
        (let (a, w1) = RandomString 6 w;
             (b, w2) = RandomString 16 w1
         in (bootstrapToken\<lparr>Token := Some (token\<lparr>ID := a @ ''.'' @ b\<rparr>)\<rparr>, w2))
      else (bootstrapToken\<lparr>Token := Some token\<rparr>, w))"

text \<open>
  \<open>bootstrapTokensEnrichment\<close>: the slice is updated in place, so the model returns the
  list after the call. The write to slot zero is outside an empty slice, and panics.
\<close>

definition bootstrapTokensEnrichment ::
  "'w RandomString \<Rightarrow> BootstrapToken list \<Rightarrow> 'w \<Rightarrow> panic + (BootstrapToken list \<times> 'w)" where
  "bootstrapTokensEnrichment RandomString bootstrapTokens w =
     (let bootstrapToken =
            (if length bootstrapTokens > 0 then bootstrapTokens ! 0 else zero_BootstrapToken);
          (bootstrapToken', w') = enrichBootstrapToken RandomString bootstrapToken w
      in if 0 < length bootstrapTokens
         then Inr (bootstrapTokens[0 := bootstrapToken'], w')
         else Inl (IndexOutOfRange 0 (length bootstrapTokens)))"

section \<open>The dispatcher\<close>

text \<open>
  Of \<open>kubeadm.Configuration\<close> the source reads one path,
  \<open>config.InitConfiguration.BootstrapTokens\<close>.
\<close>

record InitConfiguration =
  BootstrapTokens :: "BootstrapToken list"

record Configuration =
  InitConfiguration :: InitConfiguration

text \<open>
  An apply function takes the client and the configuration and returns a byte payload
  (nil or a string of bytes) and an error. It works through a pointer to the
  configuration and on the world outside (the cluster, the random source), so the model
  passes both through; a panic ends the call.
\<close>

type_synonym 'w applyFn =
  "client \<Rightarrow> Configuration \<Rightarrow> 'w \<Rightarrow> panic + ((string option \<times> error option) \<times> Configuration \<times> 'w)"

text \<open>
  The routines of package \<open>internal/kubeadm\<close> and \<open>utils.RandomString\<close> are not part of
  the source file; they are the parameters of the model.
\<close>

record 'w collaborators =
  kubeadm_UploadKubeadmConfig :: "'w applyFn"
  kubeadm_UploadKubeletConfig :: "'w applyFn"
  kubeadm_BootstrapToken ::
    "client \<Rightarrow> Configuration \<Rightarrow> 'w \<Rightarrow> panic + (error option \<times> Configuration \<times> 'w)"
  utils_RandomString :: "'w RandomString"

text \<open>The function literal returned for \<open>PhaseBootstrapToken\<close>.\<close>

definition bootstrapTokenFunction :: "'w collaborators \<Rightarrow> 'w applyFn" where
  "bootstrapTokenFunction env cl config w =
     (case bootstrapTokensEnrichment (utils_RandomString env)
             (BootstrapTokens (InitConfiguration config)) w of
        Inl p \<Rightarrow> Inl p
      | Inr (tokens, w1) \<Rightarrow>
          (case kubeadm_BootstrapToken env cl
                  (config\<lparr>InitConfiguration :=
                            (InitConfiguration config)\<lparr>BootstrapTokens := tokens\<rparr>\<rparr>) w1 of
             Inl p \<Rightarrow> Inl p
           | Inr (err, config2, w2) \<Rightarrow> Inr ((None, err), config2, w2)))"

definition GetKubeadmFunction ::
  "'w collaborators \<Rightarrow> KubeadmPhase \<Rightarrow> 'w applyFn option \<times> error option" where
  "GetKubeadmFunction env r =
     (if Phase r = PhaseUploadConfigKubeadm then (Some (kubeadm_UploadKubeadmConfig env), None)
      else if Phase r = PhaseUploadConfigKubelet then (Some (kubeadm_UploadKubeletConfig env), None)
      else if Phase r = PhaseBootstrapToken then (Some (bootstrapTokenFunction env), None)
      else (None, Some (Errorf (''no available functionality for phase '' @ fmt_s (Phase r)))))"

section \<open>Sample values\<close>

text \<open>
  Concrete collaborators and resources on which the definitions are evaluated: a random
  source that counts its calls and hands out a fixed letter, upload routines that return
  a payload, and a token routine that reports how many tokens it was given.
\<close>

definition sample_RandomString :: "nat RandomString" where
  "sample_RandomString n w = (replicate n (CHR ''a''), Suc w)"

definition sample_env :: "nat collaborators" where
  "sample_env =
     \<lparr>kubeadm_UploadKubeadmConfig = (\<lambda>cl config w. Inr ((Some ''kubeadm'', None), config, w)),
      kubeadm_UploadKubeletConfig = (\<lambda>cl config w. Inr ((Some ''kubelet'', None), config, w)),
      kubeadm_BootstrapToken =
        (\<lambda>cl config w.
           Inr (Some (Errorf (show_nat (length (BootstrapTokens (InitConfiguration config))))),
                config, w)),
      utils_RandomString = sample_RandomString\<rparr>"

definition sample_phase :: "kubeadmPhase \<Rightarrow> KubeadmPhase" where
  "sample_phase p = \<lparr>Client = 0, Name = ''tcp'', Phase = p, checksum = ''abc123''\<rparr>"

definition sample_tcp :: TenantControlPlane where
  "sample_tcp =
     \<lparr>Status = \<lparr>KubeadmPhase =
        \<lparr>UploadConfigKubeadm = \<lparr>Checksum = ''old0''\<rparr>,
         UploadConfigKubelet = \<lparr>Checksum = ''old1''\<rparr>,
         BootstrapToken = \<lparr>Checksum = ''old2''\<rparr>\<rparr>\<rparr>\<rparr>"

definition sample_token :: BootstrapToken where
  "sample_token =
     \<lparr>Token = Some \<lparr>ID = ''abcdef'', Secret = ''0123456789abcdef''\<rparr>, Description = ''join'',
      TTL = Some 3600, Expires = None, Usages = [''signing''], Groups = []\<rparr>"

section \<open>Auxiliary facts\<close>

lemmas phase_consts =
  PhaseUploadConfigKubeadm_def PhaseUploadConfigKubelet_def PhaseBootstrapToken_def

lemma show_nat_digit: "n < 10 \<Longrightarrow> show_nat n = [''0123456789'' ! n]"
  by (simp add: show_nat.simps)

lemma kubeadmPhase_String_range:
  "kubeadmPhase_String d =
     (if 0 \<le> d \<and> d \<le> 4 then Inr (kubeadmPhase_names ! nat d) else Inl (IndexOutOfRange d 5))"
  by (auto simp add: kubeadmPhase_String_def kubeadmPhase_names_def)

text \<open>Inside the table \<open>%s\<close> prints the entry; outside it prints the marker of the panic.\<close>

lemma fmt_s_in_table: "0 \<le> d \<Longrightarrow> d \<le> 4 \<Longrightarrow> fmt_s d = kubeadmPhase_names ! nat d"
  by (simp add: fmt_s_def kubeadmPhase_String_range)

lemma fmt_s_outside_table:
  "d < 0 \<or> 4 < d \<Longrightarrow>
   fmt_s d = ''%!s(PANIC=String method: '' @ panic_Error (IndexOutOfRange d 5) @ '')''"
  by (auto simp add: fmt_s_def kubeadmPhase_String_range)

lemma GetStatus_declared:
  "Phase r \<in> declared_phases \<Longrightarrow>
   \<exists>f. GetStatus r tcp = (Some (KubeadmPhaseStatus_ptr f), None)"
  by (auto simp add: phase_consts GetStatus_def declared_phases_def)

lemma GetStatus_undeclared:
  "Phase r \<notin> declared_phases \<Longrightarrow>
   GetStatus r tcp = (None, Some (Errorf (fmt_s (Phase r) @ '' is not a right kubeadm phase'')))"
  by (auto simp add: phase_consts GetStatus_def declared_phases_def)

lemma load_store: "load f (store f v t) = v"
  by (cases f) simp_all

text \<open>
  What the dispatcher does outside the declared identities: no function, and an error
  whose message ends with the \<open>%s\<close> rendering of the identity.
\<close>

lemma GetKubeadmFunction_undeclared:
  "Phase r \<notin> declared_phases \<Longrightarrow>
   GetKubeadmFunction env r =
     (None, Some (Errorf (''no available functionality for phase '' @ fmt_s (Phase r))))"
  by (auto simp add: phase_consts GetKubeadmFunction_def declared_phases_def)

lemma GetKubeadmFunction_upload:
  "Phase r = PhaseUploadConfigKubeadm \<Longrightarrow>
     GetKubeadmFunction env r = (Some (kubeadm_UploadKubeadmConfig env), None)"
  "Phase r = PhaseUploadConfigKubelet \<Longrightarrow>
     GetKubeadmFunction env r = (Some (kubeadm_UploadKubeletConfig env), None)"
  by (simp_all add: phase_consts GetKubeadmFunction_def)

text \<open>On a list that holds a token, the enrichment returns and slot zero holds the enriched token.\<close>

lemma bootstrapTokensEnrichment_nonempty:
  "bootstrapTokensEnrichment RandomString (t # ts) w =
     Inr (fst (enrichBootstrapToken RandomString t w) # ts,
          snd (enrichBootstrapToken RandomString t w))"
  by (simp add: bootstrapTokensEnrichment_def split: prod.splits)

lemma bootstrapTokensEnrichment_slot_zero:
  assumes "bootstrapTokens \<noteq> []"
  shows "\<exists>tokens w'. bootstrapTokensEnrichment RandomString bootstrapTokens w = Inr (tokens, w')
           \<and> length tokens = length bootstrapTokens
           \<and> tokens ! 0 = fst (enrichBootstrapToken RandomString (bootstrapTokens ! 0) w)"
proof -
  from assms obtain t ts where "bootstrapTokens = t # ts"
    by (cases bootstrapTokens) auto
  then show ?thesis
    by (simp add: bootstrapTokensEnrichment_nonempty)
qed

lemma enrichBootstrapToken_populated:
  "Token t = Some ts \<Longrightarrow> ID ts \<noteq> [] \<Longrightarrow> enrichBootstrapToken RandomString t w = (t, w)"
  by (cases t) (simp add: enrichBootstrapToken_def)

text \<open>
  With a token in the list, the function resolved for \<open>PhaseBootstrapToken\<close> hands the
  enriched configuration to the token routine and returns a nil payload with the
  routine's error.
\<close>

lemma bootstrapTokenFunction_nonempty:
  assumes "BootstrapTokens (InitConfiguration config) = t # ts"
    and "kubeadm_BootstrapToken env cl
           (config\<lparr>InitConfiguration := (InitConfiguration config)
              \<lparr>BootstrapTokens := fst (enrichBootstrapToken (utils_RandomString env) t w) # ts\<rparr>\<rparr>)
           (snd (enrichBootstrapToken (utils_RandomString env) t w)) = Inr (err, config2, w2)"
  shows "bootstrapTokenFunction env cl config w = Inr ((None, err), config2, w2)"
  using assms by (simp add: bootstrapTokenFunction_def bootstrapTokensEnrichment_nonempty)

lemma bootstrapTokenFunction_payload:
  "bootstrapTokenFunction env cl config w = Inr ((payload, err), config2, w2) \<Longrightarrow> payload = None"
  by (auto simp add: bootstrapTokenFunction_def split: sum.splits prod.splits)

text \<open>
  For an identity with an entry in the name table, the status write either stores the
  checksum or returns the lookup error and leaves the resource as it was.
\<close>

lemma UpdateTenantControlPlaneStatus_in_table:
  assumes "0 \<le> Phase r" and "Phase r \<le> 4"
  shows "(\<exists>f. GetStatus r tcp = (Some (KubeadmPhaseStatus_ptr f), None) \<and>
              UpdateTenantControlPlaneStatus r tcp =
                Inr (store f (SetChecksum (checksum r) (load f tcp)) tcp, None, [])) \<or>
         (\<exists>e lg. GetStatus r tcp = (None, Some e) \<and>
              UpdateTenantControlPlaneStatus r tcp = Inr (tcp, Some e, lg))"
  using assms
  by (auto simp add: phase_consts UpdateTenantControlPlaneStatus_def kubeadmPhase_String_range GetStatus_def)

section \<open>The claims\<close>

text \<open>
  Claim C1. For an empty candidate token list, the enrichment completes without error and
  produces exactly one token with an identifier of the form
  \<open>[A-Za-z0-9]{6}\.[A-Za-z0-9]{16}\<close>; for a non-empty list the enriched record is
  written back into slot zero.

  On the empty list the code does not complete: it builds and enriches the default
  record and then assigns it to \<open>bootstrapTokens[0]\<close>, an index outside a slice of length
  zero, which panics. (The part on non-empty lists holds:
  \<open>bootstrapTokensEnrichment_slot_zero\<close>.)
\<close>

theorem bootstrapTokensEnrichment_empty_panics:
  "bootstrapTokensEnrichment RandomString [] w = Inl (IndexOutOfRange 0 0)"
  by (simp add: bootstrapTokensEnrichment_def split: prod.splits)

text \<open>
  Claim C2. Whenever \<open>GetStatus\<close> returns an error for the owning resource,
  \<open>ShouldStatusBeUpdated\<close> returns false: the failure is reported as "unchanged", it is
  not propagated.
\<close>

theorem ShouldStatusBeUpdated_false_on_lookup_error:
  "snd (GetStatus r tenantControlPlane) = Some e \<Longrightarrow> \<not> ShouldStatusBeUpdated r tenantControlPlane"
  by (auto simp add: ShouldStatusBeUpdated_def isStatusEqual_def split: prod.splits)

theorem ShouldStatusBeUpdated_false_on_lookup_error_witness:
  "snd (GetStatus (sample_phase 3) sample_tcp) =
     Some (Errorf ''PhaseAddonKubeProxy is not a right kubeadm phase'')
   \<and> \<not> ShouldStatusBeUpdated (sample_phase 3) sample_tcp"
proof -
  have h: "snd (GetStatus (sample_phase 3) sample_tcp) =
     Some (Errorf ''PhaseAddonKubeProxy is not a right kubeadm phase'')"
    by (simp add: phase_consts GetStatus_def sample_phase_def fmt_s_def kubeadmPhase_String_def
        kubeadmPhase_names_def)
  from h ShouldStatusBeUpdated_false_on_lookup_error [OF h] show ?thesis by simp
qed

text \<open>
  Claim C3, as amended. When a status lookup fails during drift checking, the error is
  swallowed with the consequence "treat as unchanged": \<open>isStatusEqual\<close> returns true and
  \<open>ShouldStatusBeUpdated\<close> returns false, so the status write is skipped, not repeated.
  This is the explicit \<open>if err != nil { return true }\<close> of \<open>isStatusEqual\<close>.
\<close>

theorem lookup_error_treated_as_unchanged:
  "snd (GetStatus r tenantControlPlane) = Some e \<Longrightarrow>
   isStatusEqual r tenantControlPlane \<and> ShouldStatusBeUpdated r tenantControlPlane = False"
  by (auto simp add: ShouldStatusBeUpdated_def isStatusEqual_def split: prod.splits)

text \<open>
  Claim C3 as stated ("a lookup error causes the phase to be reported as needing a status
  write") fails: for identity 4 the lookup returns an error and \<open>ShouldStatusBeUpdated\<close>
  is false.
\<close>

theorem lookup_error_not_treated_as_changed:
  "snd (GetStatus (sample_phase 4) sample_tcp) =
     Some (Errorf ''PhaseBootstrapToken is not a right kubeadm phase'')
   \<and> ShouldStatusBeUpdated (sample_phase 4) sample_tcp = False"
  by (simp add: phase_consts ShouldStatusBeUpdated_def isStatusEqual_def GetStatus_def sample_phase_def fmt_s_def
      kubeadmPhase_String_def kubeadmPhase_names_def)

theorem lookup_error_treated_as_unchanged_witness:
  "snd (GetStatus (sample_phase 3) sample_tcp) =
     Some (Errorf ''PhaseAddonKubeProxy is not a right kubeadm phase'')
   \<and> isStatusEqual (sample_phase 3) sample_tcp
   \<and> ShouldStatusBeUpdated (sample_phase 3) sample_tcp = False"
proof -
  have h: "snd (GetStatus (sample_phase 3) sample_tcp) =
     Some (Errorf ''PhaseAddonKubeProxy is not a right kubeadm phase'')"
    by (simp add: phase_consts GetStatus_def sample_phase_def fmt_s_def kubeadmPhase_String_def
        kubeadmPhase_names_def)
  from h lookup_error_treated_as_unchanged [OF h] show ?thesis by simp
qed

text \<open>
  Claim C4. For every identity outside the declared enumeration, \<open>GetKubeadmFunction\<close>
  returns no apply function and an error whose message names that identity.

  No function and an error are returned (\<open>GetKubeadmFunction_undeclared\<close>), but the
  message is built with \<open>%s\<close>, that is with \<open>String\<close>, and \<open>String\<close> panics outside its
  table: for identity 5 the message holds the marker of the recovered panic where the
  name should stand.
\<close>

theorem GetKubeadmFunction_phase_5_message:
  "kubeadmPhase_String 5 = Inl (IndexOutOfRange 5 5)
   \<and> GetKubeadmFunction sample_env (sample_phase 5) =
     (None, Some (Errorf ''no available functionality for phase %!s(PANIC=String method: runtime error: index out of range [5] with length 5)''))"
  by (simp add: phase_consts GetKubeadmFunction_def sample_phase_def fmt_s_def kubeadmPhase_String_def
        kubeadmPhase_names_def show_int_def show_nat_digit)

text \<open>
  Inside the table the message carries the table's entry: for the undeclared identity 4
  that is the name of the declared constant 2.
\<close>

lemma GetKubeadmFunction_phase_4_message:
  "GetKubeadmFunction sample_env (sample_phase 4) =
     (None, Some (Errorf ''no available functionality for phase PhaseBootstrapToken''))"
  by (simp add: phase_consts GetKubeadmFunction_def sample_phase_def fmt_s_def kubeadmPhase_String_def
        kubeadmPhase_names_def)

text \<open>
  Claim C5. For a phase whose identity is declared and an owning resource whose status
  lookup yields a \<open>KubeadmPhaseStatus\<close> record: after \<open>UpdateTenantControlPlaneStatus\<close> has
  succeeded, the persisted checksum is the phase's checksum and \<open>ShouldStatusBeUpdated\<close>
  returns false.
\<close>

theorem ShouldStatusBeUpdated_false_after_update:
  assumes "Phase r \<in> declared_phases"
    and "GetStatus r tenantControlPlane = (Some i, None)"
    and "as_KubeadmPhaseStatus i = Some f"
    and "UpdateTenantControlPlaneStatus r tenantControlPlane = Inr (tenantControlPlane', None, lg)"
  shows "Checksum (load f tenantControlPlane') = checksum r \<and>
         \<not> ShouldStatusBeUpdated r tenantControlPlane'"
proof -
  from assms(3) have i: "i = KubeadmPhaseStatus_ptr f" by (cases i) simp
  from assms(1) have ok: "\<exists>s. kubeadmPhase_String (Phase r) = Inr s"
    by (auto simp add: phase_consts kubeadmPhase_String_range declared_phases_def)
  from assms(4) assms(2) ok i
  have t': "tenantControlPlane' =
      store f (SetChecksum (checksum r) (load f tenantControlPlane)) tenantControlPlane"
    by (auto simp add: UpdateTenantControlPlaneStatus_def)
  have g: "GetStatus r tenantControlPlane' = (Some (KubeadmPhaseStatus_ptr f), None)"
    using assms(2) i by (simp add: phase_consts GetStatus_def)
  show ?thesis
    using g t' by (simp add: ShouldStatusBeUpdated_def isStatusEqual_def load_store SetChecksum_def)
qed

theorem ShouldStatusBeUpdated_false_after_update_witness:
  "Phase (sample_phase 2) \<in> declared_phases
   \<and> GetStatus (sample_phase 2) sample_tcp = (Some (KubeadmPhaseStatus_ptr BootstrapToken_field), None)
   \<and> as_KubeadmPhaseStatus (KubeadmPhaseStatus_ptr BootstrapToken_field) = Some BootstrapToken_field
   \<and> ShouldStatusBeUpdated (sample_phase 2) sample_tcp
   \<and> UpdateTenantControlPlaneStatus (sample_phase 2) sample_tcp =
       Inr (store BootstrapToken_field \<lparr>Checksum = ''abc123''\<rparr> sample_tcp, None, [])
   \<and> Checksum (load BootstrapToken_field
        (store BootstrapToken_field \<lparr>Checksum = ''abc123''\<rparr> sample_tcp)) = ''abc123''
   \<and> \<not> ShouldStatusBeUpdated (sample_phase 2)
        (store BootstrapToken_field \<lparr>Checksum = ''abc123''\<rparr> sample_tcp)"
proof -
  have h1: "Phase (sample_phase 2) \<in> declared_phases"
    by (simp add: phase_consts sample_phase_def declared_phases_def)
  have h2: "GetStatus (sample_phase 2) sample_tcp =
      (Some (KubeadmPhaseStatus_ptr BootstrapToken_field), None)"
    by (simp add: phase_consts GetStatus_def sample_phase_def)
  have h3: "as_KubeadmPhaseStatus (KubeadmPhaseStatus_ptr BootstrapToken_field) = Some BootstrapToken_field"
    by simp
  have h4: "UpdateTenantControlPlaneStatus (sample_phase 2) sample_tcp =
       Inr (store BootstrapToken_field \<lparr>Checksum = ''abc123''\<rparr> sample_tcp, None, [])"
    by (simp add: phase_consts UpdateTenantControlPlaneStatus_def kubeadmPhase_String_def kubeadmPhase_names_def
        GetStatus_def sample_phase_def SetChecksum_def sample_tcp_def)
  have h5: "ShouldStatusBeUpdated (sample_phase 2) sample_tcp"
    by (simp add: phase_consts ShouldStatusBeUpdated_def isStatusEqual_def GetStatus_def sample_phase_def
        sample_tcp_def)
  from ShouldStatusBeUpdated_false_after_update [OF h1 h2 h3 h4] h1 h2 h3 h4 h5 show ?thesis
    by (simp add: sample_phase_def)
qed

text \<open>
  Claim C6. Enrichment is idempotent on populated identifiers: a token whose identifier
  is non-empty is returned as it is (and the random source is not used), and enriching
  a populated list, one that holds at least one token and whose tokens all have a
  non-empty identifier, returns the very same list.
\<close>

theorem enrichment_idempotent_on_populated:
  "(\<forall>ts. Token t = Some ts \<longrightarrow> ID ts \<noteq> [] \<longrightarrow>
      enrichBootstrapToken RandomString t w = (t, w)) \<and>
   (bootstrapTokens \<noteq> [] \<longrightarrow>
    (\<forall>b \<in> set bootstrapTokens. \<exists>ts. Token b = Some ts \<and> ID ts \<noteq> []) \<longrightarrow>
      bootstrapTokensEnrichment RandomString bootstrapTokens w = Inr (bootstrapTokens, w))"
proof (intro conjI allI impI)
  fix ts assume "Token t = Some ts" "ID ts \<noteq> []"
  then show "enrichBootstrapToken RandomString t w = (t, w)"
    by (rule enrichBootstrapToken_populated)
next
  assume ne: "bootstrapTokens \<noteq> []"
    and pop: "\<forall>b \<in> set bootstrapTokens. \<exists>ts. Token b = Some ts \<and> ID ts \<noteq> []"
  from ne obtain b bs where l: "bootstrapTokens = b # bs" by (cases bootstrapTokens) auto
  with pop obtain ts where "Token b = Some ts" "ID ts \<noteq> []" by auto
  then have "enrichBootstrapToken RandomString b w = (b, w)"
    by (rule enrichBootstrapToken_populated)
  with l show "bootstrapTokensEnrichment RandomString bootstrapTokens w = Inr (bootstrapTokens, w)"
    by (simp add: bootstrapTokensEnrichment_nonempty)
qed

theorem enrichment_idempotent_on_populated_witness:
  "Token sample_token = Some \<lparr>ID = ''abcdef'', Secret = ''0123456789abcdef''\<rparr>
   \<and> enrichBootstrapToken sample_RandomString sample_token 0 = (sample_token, 0)
   \<and> bootstrapTokensEnrichment sample_RandomString
        [sample_token, sample_token\<lparr>Description := ''second''\<rparr>] 0 =
       Inr ([sample_token, sample_token\<lparr>Description := ''second''\<rparr>], 0)"
  using enrichment_idempotent_on_populated
    [of sample_token sample_RandomString 0 "[sample_token, sample_token\<lparr>Description := ''second''\<rparr>]"]
  by (simp add: sample_token_def)

text \<open>
  Claim C7, as amended. After enrichment the identifier field is non-empty, and a
  non-empty identifier supplied by the caller is left as it was. The secret field is
  never written: it keeps the caller's value, and is empty when the caller gave none.
\<close>

theorem enrichBootstrapToken_fields:
  "\<exists>ts'. Token (fst (enrichBootstrapToken RandomString t w)) = Some ts'
     \<and> ID ts' \<noteq> []
     \<and> Secret ts' = (case Token t of None \<Rightarrow> [] | Some ts \<Rightarrow> Secret ts)
     \<and> (\<forall>ts. Token t = Some ts \<longrightarrow> ID ts \<noteq> [] \<longrightarrow> ID ts' = ID ts)"
  by (auto simp add: enrichBootstrapToken_def Let_def split: prod.splits option.splits)

text \<open>
  Claim C7 as stated ("after enrichment both the identifier and the secret are
  non-empty") fails: the enriched zero token has its whole credential in the identifier
  and an empty secret.
\<close>

theorem enrichBootstrapToken_secret_stays_empty:
  "map_option ID (Token (fst (enrichBootstrapToken sample_RandomString zero_BootstrapToken 0))) =
     Some ''aaaaaa.aaaaaaaaaaaaaaaa''
   \<and> map_option Secret (Token (fst (enrichBootstrapToken sample_RandomString zero_BootstrapToken 0))) =
     Some []"
  by (simp add: enrichBootstrapToken_def zero_BootstrapToken_def sample_RandomString_def
      eval_nat_numeral)

theorem enrichBootstrapToken_fields_witness:
  "Token sample_token = Some \<lparr>ID = ''abcdef'', Secret = ''0123456789abcdef''\<rparr>
   \<and> Token (fst (enrichBootstrapToken sample_RandomString sample_token 0)) =
     Some \<lparr>ID = ''abcdef'', Secret = ''0123456789abcdef''\<rparr>"
  using enrichBootstrapToken_fields [of sample_RandomString sample_token 0]
  by (auto simp add: sample_token_def)

text \<open>
  Claim C8. \<open>UpdateTenantControlPlaneStatus\<close> either succeeds and overwrites the persisted
  checksum, or, when the status lookup fails, returns the lookup error and leaves the
  owning resource unchanged.

  That holds for the identities 0 to 4 (\<open>UpdateTenantControlPlaneStatus_in_table\<close>). For
  identity 5 the lookup would fail, but the call never reaches it: building the logger
  calls \<open>r.Phase.String()\<close>, which panics.
\<close>

theorem UpdateTenantControlPlaneStatus_phase_5_panics:
  "\<not> ShouldStatusBeUpdated (sample_phase 5) sample_tcp
   \<and> GetStatus (sample_phase 5) sample_tcp =
     (None, Some (Errorf ''%!s(PANIC=String method: runtime error: index out of range [5] with length 5) is not a right kubeadm phase''))
   \<and> UpdateTenantControlPlaneStatus (sample_phase 5) sample_tcp = Inl (IndexOutOfRange 5 5)"
  by (simp add: phase_consts UpdateTenantControlPlaneStatus_def GetStatus_def sample_phase_def fmt_s_def
      ShouldStatusBeUpdated_def isStatusEqual_def
      kubeadmPhase_String_def kubeadmPhase_names_def show_int_def show_nat_digit)

text \<open>
  Claim C9. For \<open>PhaseBootstrapToken\<close> the resolved function enriches the token list of the
  configuration, then calls the token routine, and always returns a nil payload; for the
  two upload phases it is the upload routine itself.

  The upload phases are as claimed (\<open>GetKubeadmFunction_upload\<close>), and so is the token
  phase on a list that holds a token (\<open>bootstrapTokenFunction_nonempty\<close>). On a
  configuration with no token the enrichment panics, so the resolved function neither
  calls the token routine nor returns.
\<close>

theorem bootstrapTokenFunction_empty_panics:
  "GetKubeadmFunction env (r\<lparr>Phase := PhaseBootstrapToken\<rparr>) = (Some (bootstrapTokenFunction env), None)
   \<and> bootstrapTokenFunction env cl \<lparr>InitConfiguration = \<lparr>BootstrapTokens = []\<rparr>\<rparr> w =
       Inl (IndexOutOfRange 0 0)"
  by (simp add: phase_consts GetKubeadmFunction_def bootstrapTokenFunction_def bootstrapTokensEnrichment_def
      split: prod.splits)

text \<open>
  Claim C10. The name table of \<open>kubeadmPhase\<close> has five entries and the enumeration three
  values, so \<open>PhaseBootstrapToken\<close> (value 2) has the display name \<open>PhaseAddonCoreDNS\<close>, not
  \<open>PhaseBootstrapToken\<close>, and \<open>String\<close> returns exactly for the values 0 to 4; for any
  other value it panics.
\<close>

theorem kubeadmPhase_String_table:
  "length kubeadmPhase_names = 5
   \<and> card declared_phases = 3
   \<and> PhaseBootstrapToken = (2 :: kubeadmPhase)
   \<and> kubeadmPhase_String PhaseBootstrapToken = Inr ''PhaseAddonCoreDNS''
   \<and> kubeadmPhase_String PhaseBootstrapToken \<noteq> Inr ''PhaseBootstrapToken''
   \<and> (\<forall>d. (\<exists>s. kubeadmPhase_String d = Inr s) = (0 \<le> d \<and> d \<le> 4))
   \<and> (\<forall>d. (kubeadmPhase_String d = Inl (IndexOutOfRange d 5)) = (d < 0 \<or> 4 < d))"
  by (auto simp add: phase_consts kubeadmPhase_String_def kubeadmPhase_names_def declared_phases_def)

end
